theory Spec2Isabelle
  imports Main
begin

section \<open>The command queue\<close>

text \<open>
  The queue data model of \<^verbatim>\<open>PROJECT_GUIDE.md\<close> (section 6, "Queue Data Model"):
  \<^verbatim>\<open>
  @dataclass
  class Command:
      type: str
      payload: dict
      timestamp: datetime
      priority: int       # 0 = normal, 1 = interrupt (pause/stop)

  class CommandQueue:
      queue: deque[Command]
      current_action: Optional[Command]
      is_busy: bool
  \<close>
  The field \<open>type\<close> is written \<open>ctype\<close>. The dictionary \<open>payload\<close> is an association
  list, the timestamp a natural number.
\<close>

record command =
  ctype :: string
  payload :: "(string \<times> string) list"
  timestamp :: nat
  priority :: int

text \<open>
  Besides the three fields of the class, the state carries two traces that the code does
  not hold: \<open>executed\<close>, the commands handed to \<^verbatim>\<open>self.execute\<close>, oldest first, and
  \<open>in_flight\<close>, those of them whose completion has not been signalled yet.
\<close>

record command_queue =
  queue :: "command list"
  current_action :: "command option"
  is_busy :: bool
  executed :: "command list"
  in_flight :: "command list"

text \<open>
  Modelled from the spec: the body of \<^verbatim>\<open>execute\<close> is missing from the repository's files.
  The spec (4.1) has \<^verbatim>\<open>processNext\<close> "pop the head into current ... and hand current to
  the State Machine for execution"; the popped command becomes \<open>current_action\<close> and is
  recorded in both traces.
\<close>

definition execute :: "command \<Rightarrow> command_queue \<Rightarrow> command_queue" where
  "execute cmd q =
     q\<lparr>current_action := Some cmd,
       executed := executed q @ [cmd],
       in_flight := in_flight q @ [cmd]\<rparr>"

text \<open>
  Modelled from the spec: the body of \<^verbatim>\<open>interrupt\<close> is missing from the repository's files.
  The spec (4.1): "clear current, clear the FIFO only if cmd.kind == stop (pause preserves
  the FIFO for later resume)"; section 5: an interrupt "cancels that action's remaining
  effects", so nothing stays in flight.
\<close>

definition interrupt :: "command \<Rightarrow> command_queue \<Rightarrow> command_queue" where
  "interrupt cmd q =
     q\<lparr>current_action := None,
       queue := (if ctype cmd = ''stop'' then [] else queue q),
       in_flight := []\<rparr>"

text \<open>
  \<^verbatim>\<open>
  def process_next(self):
      if self.queue:
          cmd = self.queue.popleft()
          self.is_busy = True
          self.execute(cmd)
  \<close>
\<close>

definition process_next :: "command_queue \<Rightarrow> command_queue" where
  "process_next q =
     (case queue q of
        [] \<Rightarrow> q
      | cmd # rest \<Rightarrow> execute cmd (q\<lparr>queue := rest, is_busy := True\<rparr>))"

text \<open>
  \<^verbatim>\<open>
  def enqueue(self, command: Command):
      if command.priority == 1:  # Interrupt
          self.interrupt(command)
      else:
          self.queue.append(command)
          if not self.is_busy:
              self.process_next()
  \<close>
\<close>

definition enqueue :: "command \<Rightarrow> command_queue \<Rightarrow> command_queue" where
  "enqueue cmd q =
     (if priority cmd = 1 then interrupt cmd q
      else let q' = q\<lparr>queue := queue q @ [cmd]\<rparr>
           in if \<not> is_busy q' then process_next q' else q')"

text \<open>
  \<^verbatim>\<open>
  def on_action_complete(self):
      self.is_busy = False
      self.process_next()
  \<close>
\<close>

definition on_action_complete :: "command_queue \<Rightarrow> command_queue" where
  "on_action_complete q = process_next (q\<lparr>is_busy := False\<rparr>)"

text \<open>A queue that has received nothing yet: empty, idle, no current action.\<close>

definition empty_queue :: command_queue where
  "empty_queue =
     \<lparr>queue = [], current_action = None, is_busy = False, executed = [], in_flight = []\<rparr>"

text \<open>
  What happens to a queue: a command is submitted, or the dispatcher signals that the
  action in flight has finished and calls \<^verbatim>\<open>on_action_complete\<close>.
\<close>

datatype event = Enqueue command | ActionComplete

fun step :: "event \<Rightarrow> command_queue \<Rightarrow> command_queue" where
  "step (Enqueue cmd) q = enqueue cmd q"
| "step ActionComplete q = on_action_complete (q\<lparr>in_flight := drop 1 (in_flight q)\<rparr>)"

fun run :: "event list \<Rightarrow> command_queue \<Rightarrow> command_queue" where
  "run [] q = q"
| "run (e # es) q = run es (step e q)"

fun enqueued :: "event list \<Rightarrow> command list" where
  "enqueued [] = []"
| "enqueued (Enqueue cmd # es) = cmd # enqueued es"
| "enqueued (ActionComplete # es) = enqueued es"

definition normal :: "command \<Rightarrow> bool" where
  "normal cmd = (priority cmd \<noteq> 1)"

text \<open>
  The state of the queue is consistent when the busy flag says whether a command is in
  flight, at most one is, and an idle queue holds no pending command.
\<close>

definition consistent :: "command_queue \<Rightarrow> bool" where
  "consistent q =
     (if is_busy q then length (in_flight q) = 1
      else in_flight q = [] \<and> queue q = [])"


definition cmd0 :: command where
  "cmd0 = \<lparr>ctype = ''next'', payload = [], timestamp = 0, priority = 0\<rparr>"

definition cmd1 :: command where
  "cmd1 = \<lparr>ctype = ''ask'', payload = [(''name'', ''Maria'')], timestamp = 1, priority = 0\<rparr>"

section \<open>The presenter screen client\<close>

text \<open>
  The WebSocket client of the presenter screen (\<^verbatim>\<open>presenter.js\<close>, the later version with
  streaming audio). The script keeps its state in closure variables and in the page's
  elements; here that state is one record, and every handler the script registers is a
  function from state to state. What the browser does on its side arrives as an event.

  The earlier version of the script, \<^verbatim>\<open>frontend/js/presenter.js\<close>, has the same
  \<^verbatim>\<open>connect\<close>, \<^verbatim>\<open>sendToBackend\<close>, \<^verbatim>\<open>setAvatarMode\<close>, overlay functions and \<^verbatim>\<open>pauseAll\<close>; it
  lacks the streaming messages, \<^verbatim>\<open>stop_audio\<close> and the \<^verbatim>\<open>error\<close> listener of the audio element.

  Left out, as none of it sends a message, moves a slide or touches the overlays or the
  socket: console output, the audio-reactive animation of the avatar, the image carousel,
  the video and music buttons, \<^verbatim>\<open>audioPlayer.currentTime\<close> and the release of object URLs.
\<close>

datatype ready_state = CONNECTING | OPEN | CLOSING | CLOSED

datatype callback = CbConnect | CbRevealFragments

datatype jsval = JStr string | JNum int

type_synonym outbound = "string \<times> (string \<times> jsval) list"

datatype reveal_call = RevealNext | RevealSlide int int int | RevealShowFragments

datatype play_origin = PreGen | Live | Streamed

text \<open>
  The \<^verbatim>\<open>src\<close> of the audio element: a pre-generated file's URL with the cache-busting
  separator and the value of \<^verbatim>\<open>Date.now()\<close>, or an object URL of decoded bytes.
\<close>

datatype audio_source = NoSource | EmptySrc | PreGenUrl string string nat | BlobUrl "nat list"

text \<open>
  A message from the backend, after \<^verbatim>\<open>JSON.parse\<close> and \<^verbatim>\<open>const { type, data } = msg\<close>, with
  the fields of \<open>data\<close> its handler reads. An absent string is the empty string (both are
  falsy); an absent number or URL is \<open>None\<close>. Base64 data is given decoded, \<open>None\<close> when
  \<^verbatim>\<open>atob\<close> throws on it. The chunk of an \<^verbatim>\<open>audio_chunk\<close> message is \<open>None\<close> also when
  it is absent or the empty string, which \<^verbatim>\<open>if (data.chunk)\<close> skips; \<open>Some bytes\<close> is a
  non-empty string that decodes to \<open>bytes\<close>. \<open>Malformed\<close> is a text that does not parse, or whose handler
  throws on reading \<open>data\<close>: the \<^verbatim>\<open>try\<close> of \<^verbatim>\<open>ws.onmessage\<close> catches it before anything
  has changed.
\<close>

datatype message =
    Connected
  | AdvanceSlide
  | GotoSlide "int option"
  | PlayAudio "string option" bool
  | PlayLiveAudio "nat list option" string
  | StreamAudioStart string
  | AudioChunk bool "nat list option"
  | ShowQuestion string string
  | ShowResponseText string
  | ShowAvatar string
  | HideAvatar
  | StopAudio
  | Pause
  | Status "(string \<times> jsval) list"
  | Pong
  | Unknown string
  | Malformed

record presenter =
  ws :: "nat option"
  socks :: "ready_state list"
  reconnectTimer :: "nat option"
  timers :: "(nat \<times> callback) list"
  next_timer :: nat
  sent :: "outbound list"
  reveal_calls :: "reveal_call list"
  question_hidden :: bool
  response_hidden :: bool
  questionTarget :: string
  questionText :: string
  responseText :: string
  avatar_class :: "string list"
  avatar_expanded :: bool
  audio_src :: audio_source
  audio_paused :: bool
  pending_plays :: "play_origin list"
  streamBuffer :: "nat list list"
  isStreaming :: bool
  streamResponseText :: string

definition ready_of :: "presenter \<Rightarrow> nat \<Rightarrow> ready_state option" where
  "ready_of s i = (if i < length (socks s) then Some (socks s ! i) else None)"

definition ws_open :: "presenter \<Rightarrow> bool" where
  "ws_open s = (case ws s of None \<Rightarrow> False | Some i \<Rightarrow> ready_of s i = Some OPEN)"

text \<open>
  \<^verbatim>\<open>
  function connect() {
      if (ws && ws.readyState === WebSocket.OPEN) return;
      ws = new WebSocket(WS_URL);
      ws.onopen = ...; ws.onmessage = ...; ws.onclose = ...; ws.onerror = ...;
  }
  \<close>
\<close>

definition connect :: "presenter \<Rightarrow> presenter" where
  "connect s =
     (if ws_open s then s
      else s\<lparr>ws := Some (length (socks s)), socks := socks s @ [CONNECTING]\<rparr>)"

text \<open>
  \<^verbatim>\<open>
  function sendToBackend(type, data) {
      if (ws && ws.readyState === WebSocket.OPEN) {
          ws.send(JSON.stringify({ type, data }));
      }
  }
  \<close>
\<close>

definition sendToBackend :: "string \<Rightarrow> (string \<times> jsval) list \<Rightarrow> presenter \<Rightarrow> presenter" where
  "sendToBackend ty data s = (if ws_open s then s\<lparr>sent := sent s @ [(ty, data)]\<rparr> else s)"

text \<open>\<^verbatim>\<open>setTimeout(f, delay)\<close>: a new pending timer; its id is returned.\<close>

definition setTimeout :: "callback \<Rightarrow> presenter \<Rightarrow> presenter" where
  "setTimeout cb s = s\<lparr>timers := timers s @ [(next_timer s, cb)], next_timer := Suc (next_timer s)\<rparr>"

definition clearTimeout :: "nat option \<Rightarrow> presenter \<Rightarrow> presenter" where
  "clearTimeout t s =
     (case t of None \<Rightarrow> s | Some i \<Rightarrow> s\<lparr>timers := filter (\<lambda>p. fst p \<noteq> i) (timers s)\<rparr>)"

text \<open>
  \<^verbatim>\<open>
  function gotoSlideAndRevealFragments(slideIndex) {
      Reveal.slide(slideIndex, 0, 0);
      setTimeout(function () { ... fragments[i].classList.add('visible') ... }, 100);
  }
  \<close>
\<close>

definition gotoSlideAndRevealFragments :: "int \<Rightarrow> presenter \<Rightarrow> presenter" where
  "gotoSlideAndRevealFragments slideIndex s =
     setTimeout CbRevealFragments (s\<lparr>reveal_calls := reveal_calls s @ [RevealSlide slideIndex 0 0]\<rparr>)"

text \<open>
  \<^verbatim>\<open>
  function setAvatarMode(mode) {
      avatarEl.className = 'avatar';
      switch (mode) {
          case 'speaking': add 'avatar-speaking'; remove 'expanded'; break;
          case 'speaking_live': add 'avatar-speaking-live'; add 'expanded'; break;
          case 'thinking': add 'avatar-thinking'; remove 'expanded'; break;
          case 'listening': add 'avatar-listening'; remove 'expanded'; break;
          case 'idle': default: add 'avatar-idle'; remove 'expanded'; break;
      }
  }
  \<close>
\<close>

definition setAvatarMode :: "string \<Rightarrow> presenter \<Rightarrow> presenter" where
  "setAvatarMode mode s =
     (if mode = ''speaking'' then s\<lparr>avatar_class := [''avatar'', ''avatar-speaking''], avatar_expanded := False\<rparr>
      else if mode = ''speaking_live'' then s\<lparr>avatar_class := [''avatar'', ''avatar-speaking-live''], avatar_expanded := True\<rparr>
      else if mode = ''thinking'' then s\<lparr>avatar_class := [''avatar'', ''avatar-thinking''], avatar_expanded := False\<rparr>
      else if mode = ''listening'' then s\<lparr>avatar_class := [''avatar'', ''avatar-listening''], avatar_expanded := False\<rparr>
      else s\<lparr>avatar_class := [''avatar'', ''avatar-idle''], avatar_expanded := False\<rparr>)"

text \<open>
  \<^verbatim>\<open>
  function showQuestion(targetName, question) {
      questionTarget.textContent = targetName ? `Question for ${targetName}:` : 'Question:';
      questionText.textContent = question;
      questionOverlay.classList.remove('hidden');
      responseOverlay.classList.add('hidden');
  }
  function showResponseText(text) {
      responseText.textContent = text;
      responseOverlay.classList.remove('hidden');
      questionOverlay.classList.add('hidden');
  }
  function hideOverlays() {
      questionOverlay.classList.add('hidden');
      responseOverlay.classList.add('hidden');
  }
  \<close>
\<close>

definition showQuestion :: "string \<Rightarrow> string \<Rightarrow> presenter \<Rightarrow> presenter" where
  "showQuestion targetName question s =
     s\<lparr>questionTarget := (if targetName \<noteq> [] then ''Question for '' @ targetName @ '':'' else ''Question:''),
       questionText := question,
       question_hidden := False,
       response_hidden := True\<rparr>"

definition showResponseText :: "string \<Rightarrow> presenter \<Rightarrow> presenter" where
  "showResponseText text s =
     s\<lparr>responseText := text, response_hidden := False, question_hidden := True\<rparr>"

definition hideOverlays :: "presenter \<Rightarrow> presenter" where
  "hideOverlays s = s\<lparr>question_hidden := True, response_hidden := True\<rparr>"

text \<open>
  \<^verbatim>\<open>audioPlayer.src = ...; audioPlayer.load(); audioPlayer.play()\<close>: the promise that
  \<^verbatim>\<open>play()\<close> returns stays pending until the browser settles it.
\<close>

definition load_and_play :: "audio_source \<Rightarrow> play_origin \<Rightarrow> presenter \<Rightarrow> presenter" where
  "load_and_play src origin s =
     s\<lparr>audio_src := src, audio_paused := False, pending_plays := pending_plays s @ [origin]\<rparr>"

text \<open>
  \<^verbatim>\<open>
  function playPreGenAudio(audioUrl, fallback) {
      hideOverlays();
      const separator = audioUrl.indexOf('?') >= 0 ? '&' : '?';
      const cacheBustedUrl = `${audioUrl}${separator}v=${Date.now()}`;
      audioPlayer.src = cacheBustedUrl;
      audioPlayer.load();
      const playPromise = audioPlayer.play();
      if (playPromise !== undefined) {
          playPromise.catch(function (err) {
              ...
              // Notify backend that audio "ended" even if it failed
              sendToBackend('audio_ended', { error: 'play_failed' });
          });
      }
  }
  \<close>
  Without a URL \<^verbatim>\<open>audioUrl.indexOf\<close> throws once the overlays are hidden.
\<close>

definition playPreGenAudio :: "nat \<Rightarrow> string option \<Rightarrow> bool \<Rightarrow> presenter \<Rightarrow> presenter" where
  "playPreGenAudio now audioUrl fallback s =
     (case audioUrl of
        None \<Rightarrow> hideOverlays s
      | Some url \<Rightarrow>
          load_and_play
            (PreGenUrl url (if CHR ''?'' \<in> set url then ''&'' else ''?'') now) PreGen
            (hideOverlays s))"

text \<open>
  \<^verbatim>\<open>
  function playLiveAudio(audioBase64, text) {
      hideOverlays();
      if (text) { showResponseText(text); }
      var audioBytes = Uint8Array.from(atob(audioBase64), ...);
      ...
      audioPlayer.src = url;
      audioPlayer.load();
      audioPlayer.play().catch(function (err) {
          sendToBackend('audio_ended', {});
      });
      ...
  }
  \<close>
\<close>

definition playLiveAudio :: "nat list option \<Rightarrow> string \<Rightarrow> presenter \<Rightarrow> presenter" where
  "playLiveAudio audioBase64 text s =
     (let s1 = hideOverlays s;
          s2 = (if text \<noteq> [] then showResponseText text s1 else s1)
      in case audioBase64 of
           None \<Rightarrow> s2
         | Some bytes \<Rightarrow> load_and_play (BlobUrl bytes) Live s2)"

text \<open>
  \<^verbatim>\<open>
  function startStreamingAudio(text) {
      streamBuffer = [];
      isStreaming = true;
      streamResponseText = text || '';
      hideOverlays();
      if (text) { showResponseText(text); }
  }
  \<close>
\<close>

definition startStreamingAudio :: "string \<Rightarrow> presenter \<Rightarrow> presenter" where
  "startStreamingAudio text s =
     (let s1 = hideOverlays (s\<lparr>streamBuffer := [], isStreaming := True, streamResponseText := text\<rparr>)
      in if text \<noteq> [] then showResponseText text s1 else s1)"

text \<open>
  \<^verbatim>\<open>
  function assembleAndPlayStream() {
      if (streamBuffer.length === 0) {
          sendToBackend('audio_ended', {});
          return;
      }
      ... merge all chunks into one Uint8Array ...
      audioPlayer.src = url;
      audioPlayer.load();
      audioPlayer.play().catch(function (err) {
          sendToBackend('audio_ended', {});
      });
      ...
      streamBuffer = [];
  }
  \<close>
\<close>

definition assembleAndPlayStream :: "presenter \<Rightarrow> presenter" where
  "assembleAndPlayStream s =
     (if streamBuffer s = [] then sendToBackend ''audio_ended'' [] s
      else (load_and_play (BlobUrl (concat (streamBuffer s))) Streamed s)\<lparr>streamBuffer := []\<rparr>)"

text \<open>
  \<^verbatim>\<open>
  function handleAudioChunk(data) {
      if (!isStreaming) return;
      if (data.final) {
          isStreaming = false;
          assembleAndPlayStream();
          return;
      }
      if (data.chunk) { ... streamBuffer.push(bytes); }
  }
  \<close>
  A chunk that is absent or empty is skipped, and one that \<^verbatim>\<open>atob\<close> rejects throws before
  anything is buffered: in each case (\<open>None\<close>) nothing changes.
\<close>

definition handleAudioChunk :: "bool \<Rightarrow> nat list option \<Rightarrow> presenter \<Rightarrow> presenter" where
  "handleAudioChunk final chunk s =
     (if \<not> isStreaming s then s
      else if final then assembleAndPlayStream (s\<lparr>isStreaming := False\<rparr>)
      else case chunk of
             None \<Rightarrow> s
           | Some bytes \<Rightarrow> s\<lparr>streamBuffer := streamBuffer s @ [bytes]\<rparr>)"

text \<open>
  \<^verbatim>\<open>
  function stopAudio() {
      audioPlayer.pause();
      audioPlayer.currentTime = 0;
      audioPlayer.src = '';
      setAvatarMode('idle');
  }
  function pauseAll() {
      audioPlayer.pause();
      setAvatarMode('idle');
      hideOverlays();
  }
  \<close>
\<close>

definition stopAudio :: "presenter \<Rightarrow> presenter" where
  "stopAudio s = setAvatarMode ''idle'' (s\<lparr>audio_paused := True, audio_src := EmptySrc\<rparr>)"

definition pauseAll :: "presenter \<Rightarrow> presenter" where
  "pauseAll s = hideOverlays (setAvatarMode ''idle'' (s\<lparr>audio_paused := True\<rparr>))"

text \<open>
  \<^verbatim>\<open>handleMessage(msg)\<close>, the \<^verbatim>\<open>switch (type)\<close>. The cases \<^verbatim>\<open>connected\<close>, \<^verbatim>\<open>status\<close> and
  the default only write to the console; \<^verbatim>\<open>pong\<close> does nothing. The \<^verbatim>\<open>goto_slide\<close> case is
  \<^verbatim>\<open>gotoSlideAndRevealFragments(data.slideIndex || 0)\<close>. The first argument is the value of
  \<^verbatim>\<open>Date.now()\<close> when the message is handled.
\<close>

fun handleMessage :: "nat \<Rightarrow> message \<Rightarrow> presenter \<Rightarrow> presenter" where
  "handleMessage now Connected s = s"
| "handleMessage now AdvanceSlide s = s\<lparr>reveal_calls := reveal_calls s @ [RevealNext]\<rparr>"
| "handleMessage now (GotoSlide slideIndex) s =
     gotoSlideAndRevealFragments (case slideIndex of None \<Rightarrow> 0 | Some n \<Rightarrow> if n = 0 then 0 else n) s"
| "handleMessage now (PlayAudio audioUrl fallback) s = playPreGenAudio now audioUrl fallback s"
| "handleMessage now (PlayLiveAudio audioData text) s = playLiveAudio audioData text s"
| "handleMessage now (StreamAudioStart text) s = startStreamingAudio text s"
| "handleMessage now (AudioChunk final chunk) s = handleAudioChunk final chunk s"
| "handleMessage now (ShowQuestion targetName question) s = showQuestion targetName question s"
| "handleMessage now (ShowResponseText text) s = showResponseText text s"
| "handleMessage now (ShowAvatar mode) s = setAvatarMode mode s"
| "handleMessage now HideAvatar s = setAvatarMode ''idle'' s"
| "handleMessage now StopAudio s = stopAudio s"
| "handleMessage now Pause s = pauseAll s"
| "handleMessage now (Status d) s = s"
| "handleMessage now Pong s = s"
| "handleMessage now (Unknown ty) s = s"
| "handleMessage now Malformed s = s"

text \<open>
  What the browser delivers to the script: the events of a socket (by the index of the
  socket among those created), a timer that fires, the 30 second heartbeat, Reveal's
  \<^verbatim>\<open>slidechanged\<close>, the audio element's \<^verbatim>\<open>ended\<close> and \<^verbatim>\<open>error\<close>, and the settling of
  a promise returned by \<^verbatim>\<open>play()\<close>.
\<close>

datatype browser_event =
    WsOpen nat
  | WsMessage nat nat message
  | WsClose nat
  | WsError nat
  | TimerFire nat
  | Heartbeat
  | SlideChanged int
  | AudioEnded
  | AudioError
  | PlayFulfilled play_origin
  | PlayRejected play_origin

text \<open>
  The handlers, as registered:
  \<^verbatim>\<open>
  ws.onopen = function () { clearTimeout(reconnectTimer); };
  ws.onmessage = function (event) { try { handleMessage(JSON.parse(event.data)); } catch (e) {...} };
  ws.onclose = function () { reconnectTimer = setTimeout(connect, RECONNECT_DELAY); };
  ws.onerror = function (err) { console.error(...); };
  audioPlayer.addEventListener('error', function () {
      // Notify backend so the state machine can continue
      sendToBackend('audio_ended', { error: 'load_error' });
  });
  audioPlayer.addEventListener('ended', function () {
      setAvatarMode('idle'); hideOverlays(); sendToBackend('audio_ended', {});
  });
  setInterval(function () { sendToBackend('ping', {}); }, 30000);
  Reveal.on('slidechanged', function (event) {
      sendToBackend('slide_changed', { slideIndex: event.indexh }); ...
  });
  \<close>
  A socket opens from \<open>CONNECTING\<close>, delivers messages while \<open>OPEN\<close> and closes once; a
  timer fires if it is pending; a promise settles if it is pending. An event that cannot
  happen in the state leaves it as it is.
\<close>

fun client_step :: "browser_event \<Rightarrow> presenter \<Rightarrow> presenter" where
  "client_step (WsOpen i) s =
     (if ready_of s i = Some CONNECTING
      then clearTimeout (reconnectTimer s) (s\<lparr>socks := (socks s)[i := OPEN]\<rparr>)
      else s)"
| "client_step (WsMessage i now m) s =
     (if ready_of s i = Some OPEN then handleMessage now m s else s)"
| "client_step (WsClose i) s =
     (if ready_of s i \<noteq> None \<and> ready_of s i \<noteq> Some CLOSED
      then setTimeout CbConnect (s\<lparr>socks := (socks s)[i := CLOSED], reconnectTimer := Some (next_timer s)\<rparr>)
      else s)"
| "client_step (WsError i) s = s"
| "client_step (TimerFire t) s =
     (case map_of (timers s) t of
        None \<Rightarrow> s
      | Some CbConnect \<Rightarrow> connect (s\<lparr>timers := filter (\<lambda>p. fst p \<noteq> t) (timers s)\<rparr>)
      | Some CbRevealFragments \<Rightarrow>
          s\<lparr>timers := filter (\<lambda>p. fst p \<noteq> t) (timers s),
            reveal_calls := reveal_calls s @ [RevealShowFragments]\<rparr>)"
| "client_step Heartbeat s = sendToBackend ''ping'' [] s"
| "client_step (SlideChanged indexh) s = sendToBackend ''slide_changed'' [(''slideIndex'', JNum indexh)] s"
| "client_step AudioEnded s = sendToBackend ''audio_ended'' [] (hideOverlays (setAvatarMode ''idle'' s))"
| "client_step AudioError s = sendToBackend ''audio_ended'' [(''error'', JStr ''load_error'')] s"
| "client_step (PlayFulfilled origin) s = s\<lparr>pending_plays := remove1 origin (pending_plays s)\<rparr>"
| "client_step (PlayRejected origin) s =
     (if origin \<in> set (pending_plays s)
      then let s' = s\<lparr>pending_plays := remove1 origin (pending_plays s)\<rparr>
           in (case origin of
                 PreGen \<Rightarrow> sendToBackend ''audio_ended'' [(''error'', JStr ''play_failed'')] s'
               | Live \<Rightarrow> sendToBackend ''audio_ended'' [] s'
               | Streamed \<Rightarrow> sendToBackend ''audio_ended'' [] s')
      else s)"

fun client_run :: "browser_event list \<Rightarrow> presenter \<Rightarrow> presenter" where
  "client_run [] s = s"
| "client_run (e # es) s = client_run es (client_step e s)"

text \<open>
  The page once the script has run: nothing shown, nothing sent, and the call
  \<^verbatim>\<open>connect()\<close> at the end of the script has created the first socket.
\<close>

definition fresh_page :: presenter where
  "fresh_page =
     \<lparr>ws = None, socks = [], reconnectTimer = None, timers = [], next_timer = 0, sent = [],
      reveal_calls = [], question_hidden = True, response_hidden = True, questionTarget = [],
      questionText = [], responseText = [], avatar_class = [''avatar''], avatar_expanded = False,
      audio_src = NoSource, audio_paused = True, pending_plays = [], streamBuffer = [],
      isStreaming = False, streamResponseText = []\<rparr>"

definition initial_client :: presenter where
  "initial_client = connect fresh_page"

definition at_most_one_overlay :: "presenter \<Rightarrow> bool" where
  "at_most_one_overlay s = (question_hidden s \<or> response_hidden s)"

definition backend_types :: "string list" where
  "backend_types = [''audio_ended'', ''ping'', ''slide_changed'']"

text \<open>The client sends messages of three types only.\<close>

definition only_backend_types :: "presenter \<Rightarrow> bool" where
  "only_backend_types s = list_all (\<lambda>m. fst m \<in> set backend_types) (sent s)"

section \<open>The audience question form\<close>

text \<open>
  The script of the audience page (\<^verbatim>\<open>ask.js\<close>). A JavaScript string is the list of its
  UTF-16 code units; \<open>js\<close> writes an ASCII literal as one.
\<close>

type_synonym jstring = "nat list"

definition js :: "string \<Rightarrow> jstring" where
  "js cs = map of_char cs"

text \<open>
  \<^verbatim>\<open>String.prototype.trim\<close> strips the white space and line terminators of ECMAScript from
  both ends: tab, line feed, vertical tab, form feed, carriage return, space, no-break
  space, the space separators U+1680, U+2000 to U+200A, U+202F, U+205F and U+3000, the
  line and paragraph separators U+2028 and U+2029, and the byte order mark U+FEFF.
\<close>

definition is_white :: "nat \<Rightarrow> bool" where
  "is_white c =
     (c \<in> set [9, 10, 11, 12, 13, 32, 160, 5760, 8232, 8233, 8239, 8287, 12288, 65279]
      \<or> (8192 \<le> c \<and> c \<le> 8202))"

definition trim :: "jstring \<Rightarrow> jstring" where
  "trim cs = rev (dropWhile is_white (rev (dropWhile is_white cs)))"

text \<open>
  The body of the request, \<^verbatim>\<open>JSON.stringify({ name: name || null, question: question })\<close>;
  \<open>None\<close> is \<^verbatim>\<open>null\<close>.
\<close>

record question_body =
  body_name :: "jstring option"
  body_question :: jstring

record http_request =
  req_url :: string
  req_method :: string
  req_headers :: "(string \<times> string) list"
  req_body :: question_body

text \<open>
  The page: the two inputs, the button, the counter, the error and success messages
  (\<^verbatim>\<open>style.display\<close> and \<^verbatim>\<open>textContent\<close>), and the requests issued by \<^verbatim>\<open>fetch\<close>.
\<close>

record ask_form =
  nameInput :: jstring
  questionInput :: jstring
  submitBtn_disabled :: bool
  submitBtn_text :: jstring
  charCount :: nat
  form_display :: string
  success_display :: string
  error_text :: jstring
  error_display :: string
  requests :: "http_request list"

text \<open>
  \<^verbatim>\<open>
  questionInput.addEventListener('input', function () {
      charCount.textContent = questionInput.value.length;
  });
  function showError(msg) {
      errorMessage.textContent = msg;
      errorMessage.style.display = 'block';
  }
  function hideError() {
      errorMessage.style.display = 'none';
  }
  \<close>
\<close>

definition on_input :: "jstring \<Rightarrow> ask_form \<Rightarrow> ask_form" where
  "on_input v f = f\<lparr>questionInput := v, charCount := length v\<rparr>"

definition showError :: "jstring \<Rightarrow> ask_form \<Rightarrow> ask_form" where
  "showError msg f = f\<lparr>error_text := msg, error_display := ''block''\<rparr>"

definition hideError :: "ask_form \<Rightarrow> ask_form" where
  "hideError f = f\<lparr>error_display := ''none''\<rparr>"

text \<open>
  The \<^verbatim>\<open>submit\<close> listener up to its first \<^verbatim>\<open>await\<close>:
  \<^verbatim>\<open>
  e.preventDefault();
  const name = nameInput.value.trim();
  const question = questionInput.value.trim();
  if (!question) {
      showError('Please enter a question.');
      return;
  }
  submitBtn.disabled = true;
  submitBtn.textContent = 'Submitting...';
  hideError();
  try {
      const response = await fetch('/api/questions/submit', {
          method: 'POST',
          headers: { 'Content-Type': 'application/json' },
          body: JSON.stringify({ name: name || null, question: question }),
      });
  \<close>
\<close>

definition on_submit :: "ask_form \<Rightarrow> ask_form" where
  "on_submit f =
     (let name = trim (nameInput f); question = trim (questionInput f)
      in if question = [] then showError (js ''Please enter a question.'') f
         else (hideError (f\<lparr>submitBtn_disabled := True, submitBtn_text := js ''Submitting...''\<rparr>))
              \<lparr>requests := requests f @
                 [\<lparr>req_url = ''/api/questions/submit'', req_method = ''POST'',
                   req_headers = [(''Content-Type'', ''application/json'')],
                   req_body = \<lparr>body_name = (if name = [] then None else Some name),
                                body_question = question\<rparr>\<rparr>]\<rparr>)"

text \<open>
  How the request ends: \<^verbatim>\<open>fetch\<close> rejects with an error message, or a response arrives,
  \<^verbatim>\<open>ok\<close> or not; of a response that is not \<^verbatim>\<open>ok\<close> the script reads \<^verbatim>\<open>response.json()\<close>,
  which throws with a message or gives an object whose \<^verbatim>\<open>detail\<close> is a string (empty
  when absent).
\<close>

datatype fetch_outcome =
    Rejected jstring
  | ResponseOk
  | ResponseNotOk_JsonThrows jstring
  | ResponseNotOk_Detail jstring

text \<open>
  The rest of the listener:
  \<^verbatim>\<open>
      if (!response.ok) {
          const data = await response.json();
          throw new Error(data.detail || 'Submission failed.');
      }
      form.style.display = 'none';
      successMessage.style.display = 'block';
  } catch (err) {
      showError(err.message || 'Something went wrong. Please try again.');
      submitBtn.disabled = false;
      submitBtn.textContent = 'Submit Question';
  }
  \<close>
\<close>

definition on_catch :: "jstring \<Rightarrow> ask_form \<Rightarrow> ask_form" where
  "on_catch message f =
     (showError (if message \<noteq> [] then message else js ''Something went wrong. Please try again.'') f)
       \<lparr>submitBtn_disabled := False, submitBtn_text := js ''Submit Question''\<rparr>"

fun on_settled :: "fetch_outcome \<Rightarrow> ask_form \<Rightarrow> ask_form" where
  "on_settled (Rejected message) f = on_catch message f"
| "on_settled ResponseOk f = f\<lparr>form_display := ''none'', success_display := ''block''\<rparr>"
| "on_settled (ResponseNotOk_JsonThrows message) f = on_catch message f"
| "on_settled (ResponseNotOk_Detail detail) f =
     on_catch (if detail \<noteq> [] then detail else js ''Submission failed.'') f"

text \<open>
  One submission: the listener runs to the request and, if it issued one, on to the end
  once the request has settled.
\<close>

definition submission :: "fetch_outcome \<Rightarrow> ask_form \<Rightarrow> ask_form" where
  "submission outcome f =
     (if trim (questionInput f) = [] then on_submit f else on_settled outcome (on_submit f))"

definition blank_form :: ask_form where
  "blank_form =
     \<lparr>nameInput = [], questionInput = [], submitBtn_disabled = False,
      submitBtn_text = js ''Submit Question'', charCount = 0, form_display = [],
      success_display = ''none'', error_text = [], error_display = ''none'', requests = []\<rparr>"

section \<open>The presentation engine\<close>

text \<open>
  The states of the agent, from \<^verbatim>\<open>PROJECT_GUIDE.md\<close> (section 7):
  \<^verbatim>\<open>
  class AgentState(str, Enum):
      IDLE = "idle"; INTRODUCING = "introducing"; PRESENTING = "presenting"
      ASKING = "asking"; WAITING_ANSWER = "waiting"; RESPONDING = "responding"
      TRANSITIONING = "transitioning"; QA_MODE = "qa_mode"; OUTRO = "outro"
      PAUSED = "paused"; DONE = "done"
  \<close>
\<close>

datatype AgentState =
    IDLE | INTRODUCING | PRESENTING | ASKING | WAITING_ANSWER | RESPONDING
  | TRANSITIONING | QA_MODE | OUTRO | PAUSED | DONE

text \<open>
  Modelled from the spec: the state machine of the backend (its nodes, its router and its
  command handlers) is missing from the repository's files. The definitions of this
  section follow sections 3, 4.1, 4.2, 6 and 7 of the spec. The engine holds the agent
  state, the presentation context (current slide, number of slides, the snapshot taken by
  a pause), the command queue of the first section and the effects emitted so far.
\<close>

record snapshot =
  snap_state :: AgentState
  snap_slide :: int

datatype effect = GoToSlide int | PlayNarration int | StopAllPlayback

record engine =
  agentState :: AgentState
  currentSlide :: int
  totalSlides :: int
  savedStateOnPause :: "snapshot option"
  commands :: command_queue
  effects :: "effect list"

datatype engine_error = InvalidCommand | InvalidSlideIndex

text \<open>
  Modelled from the spec: the handler of \<^verbatim>\<open>goto\<close> is missing from the repository's files.
  Section 4.2: "\<^verbatim>\<open>goto N\<close> requires \<^verbatim>\<open>0 \<le> N < totalSlides\<close>; out-of-range requests fail with an
  InvalidSlideIndex condition and leave AgentState unchanged"; PRESENTING is entered via
  \<^verbatim>\<open>goto\<close> and on entry emits "go to slide N" and "play narration for slide N". The result
  is the error raised, if any, and the state after the call.
\<close>

definition goto :: "int \<Rightarrow> engine \<Rightarrow> engine_error option \<times> engine" where
  "goto N e =
     (if 0 \<le> N \<and> N < totalSlides e
      then (None, e\<lparr>agentState := PRESENTING, currentSlide := N,
                     effects := effects e @ [GoToSlide N, PlayNarration N]\<rparr>)
      else (Some InvalidSlideIndex, e))"

text \<open>
  Modelled from the spec: the engine's side of an interrupt is missing from the
  repository's files. Section 4.1: an interrupt is applied immediately and the engine
  goes to PAUSED synchronously; section 4.2, PAUSED: "emit stop all playback, snapshot
  prior AgentState + current slide into savedStateOnPause". The queue is handled by
  \<open>enqueue\<close>, whose interrupt branch a command of priority 1 takes.
\<close>

definition interrupt_engine :: "command \<Rightarrow> engine \<Rightarrow> engine" where
  "interrupt_engine cmd e =
     e\<lparr>commands := enqueue cmd (commands e),
       savedStateOnPause := Some \<lparr>snap_state = agentState e, snap_slide = currentSlide e\<rparr>,
       agentState := PAUSED,
       effects := effects e @ [StopAllPlayback]\<rparr>"

text \<open>
  Modelled from the spec: the handler of \<^verbatim>\<open>resume\<close> is missing from the repository's
  files. Section 4.2: PAUSED completes on the \<^verbatim>\<open>resume\<close> command, and what follows is
  "restore savedStateOnPause".
\<close>

definition resume :: "engine \<Rightarrow> engine" where
  "resume e =
     (case savedStateOnPause e of
        None \<Rightarrow> e
      | Some snap \<Rightarrow>
          if agentState e = PAUSED
          then e\<lparr>agentState := snap_state snap, currentSlide := snap_slide snap\<rparr>
          else e)"

text \<open>
  Modelled from the spec: the router is missing from the repository's files. Section 4.2:
  "examine the next NORMAL command in the FIFO head, if any, and transition according to
  its kind; if the FIFO is empty, remain in PRESENTING awaiting operator input". The
  state a command leads to is the one the table of states says it enters.
\<close>

definition state_entered_via :: "string \<Rightarrow> AgentState option" where
  "state_entered_via kind =
     (if kind = ''intro'' then Some INTRODUCING
      else if kind = ''next'' \<or> kind = ''goto'' then Some PRESENTING
      else if kind = ''ask'' then Some ASKING
      else if kind = ''qa'' then Some QA_MODE
      else if kind = ''outro'' then Some OUTRO
      else None)"

definition router :: "engine \<Rightarrow> engine" where
  "router e =
     (case queue (commands e) of
        [] \<Rightarrow> e\<lparr>agentState := PRESENTING\<rparr>
      | cmd # rest \<Rightarrow>
          (case state_entered_via (ctype cmd) of
             None \<Rightarrow> e
           | Some st \<Rightarrow> e\<lparr>agentState := st\<rparr>))"

text \<open>
  Modelled from the spec: the completion of a state's action. Section 4.2, column "Next":
  INTRODUCING goes to PRESENTING, ASKING to WAITING_ANSWER, OUTRO to DONE, and PRESENTING,
  RESPONDING and QA_MODE go where the router says. Section 4.1: the dispatcher then calls
  \<^verbatim>\<open>onActionComplete\<close> on the queue.
\<close>

definition state_completes :: "engine \<Rightarrow> engine" where
  "state_completes e =
     (let e1 =
        (if agentState e = PRESENTING \<or> agentState e = RESPONDING \<or> agentState e = QA_MODE
         then router e
         else if agentState e = INTRODUCING then e\<lparr>agentState := PRESENTING\<rparr>
         else if agentState e = ASKING then e\<lparr>agentState := WAITING_ANSWER\<rparr>
         else if agentState e = OUTRO then e\<lparr>agentState := DONE\<rparr>
         else e)
      in e1\<lparr>commands := step ActionComplete (commands e1)\<rparr>)"

text \<open>
  Modelled from the spec: the handler of \<^verbatim>\<open>status\<close> is missing from the repository's
  files. Section 6: "a pull-style status Command returns {agentState, currentSlide,
  queueDepth, currentCommandKind} and never mutates state". The result is the report and
  the state after the call.
\<close>

record status_report =
  report_agentState :: AgentState
  report_currentSlide :: int
  report_queueDepth :: nat
  report_currentCommandKind :: "string option"

definition status :: "engine \<Rightarrow> status_report \<times> engine" where
  "status e =
     (\<lparr>report_agentState = agentState e,
       report_currentSlide = currentSlide e,
       report_queueDepth = length (queue (commands e)),
       report_currentCommandKind = map_option ctype (current_action (commands e))\<rparr>, e)"

text \<open>
  The engine \<open>e'\<close> awaits the operator after \<open>e\<close>: it is in PRESENTING on the slide of
  \<open>e\<close>, has emitted and executed nothing more, and its queue is empty and idle.
\<close>

definition awaiting :: "engine \<Rightarrow> engine \<Rightarrow> bool" where
  "awaiting e e' =
     (agentState e' = PRESENTING \<and> currentSlide e' = currentSlide e \<and> effects e' = effects e \<and>
      executed (commands e') = executed (commands e) \<and> queue (commands e') = [] \<and>
      \<not> is_busy (commands e'))"

text \<open>A session of fifteen slides on slide 3, answering, with one command waiting.\<close>

definition pause_cmd :: command where
  "pause_cmd = \<lparr>ctype = ''pause'', payload = [], timestamp = 5, priority = 1\<rparr>"

definition stop_cmd :: command where
  "stop_cmd = \<lparr>ctype = ''stop'', payload = [], timestamp = 6, priority = 1\<rparr>"

definition session :: engine where
  "session =
     \<lparr>agentState = RESPONDING, currentSlide = 3, totalSlides = 15, savedStateOnPause = None,
      commands = run [Enqueue cmd1, Enqueue cmd0] empty_queue, effects = []\<rparr>"

section \<open>Verified properties\<close>

subsection \<open>The command queue\<close>

lemma consistent_empty_queue: "consistent empty_queue"
  by (simp add: consistent_def empty_queue_def)

lemma step_consistent:
  assumes "consistent q" and "list_all normal (enqueued [e])"
  shows "consistent (step e q)"
proof (cases e)
  case (Enqueue cmd)
  with assms show ?thesis
    by (auto simp: consistent_def enqueue_def process_next_def execute_def normal_def Let_def
        split: list.splits if_splits)
next
  case ActionComplete
  with assms show ?thesis
    by (auto simp: consistent_def on_action_complete_def process_next_def execute_def
        split: list.splits if_splits)
qed

lemma step_fifo:
  assumes "consistent q" and "list_all normal (enqueued [e])"
  shows "executed (step e q) @ queue (step e q) = executed q @ queue q @ enqueued [e]"
proof (cases e)
  case (Enqueue cmd)
  with assms show ?thesis
    by (auto simp: consistent_def enqueue_def process_next_def execute_def normal_def Let_def
        split: list.splits if_splits)
next
  case ActionComplete
  with assms show ?thesis
    by (auto simp: consistent_def on_action_complete_def process_next_def execute_def
        split: list.splits if_splits)
qed

lemma enqueued_Cons: "enqueued (e # es) = enqueued [e] @ enqueued es"
  by (cases e) simp_all

lemma run_consistent:
  "consistent q \<Longrightarrow> list_all normal (enqueued es) \<Longrightarrow> consistent (run es q)"
proof (induction es arbitrary: q)
  case Nil
  then show ?case by simp
next
  case (Cons e es)
  from Cons.prems(2) have n: "list_all normal (enqueued [e])" "list_all normal (enqueued es)"
    by (simp_all add: enqueued_Cons [of e es])
  from Cons.prems(1) n(1) have "consistent (step e q)" by (rule step_consistent)
  with n(2) show ?case by (simp add: Cons.IH)
qed

lemma run_fifo:
  "consistent q \<Longrightarrow> list_all normal (enqueued es) \<Longrightarrow>
   executed (run es q) @ queue (run es q) = executed q @ queue q @ enqueued es"
proof (induction es arbitrary: q)
  case Nil
  then show ?case by simp
next
  case (Cons e es)
  from Cons.prems(2) have n: "list_all normal (enqueued [e])" "list_all normal (enqueued es)"
    by (simp_all add: enqueued_Cons [of e es])
  from Cons.prems(1) n(1) have c: "consistent (step e q)" by (rule step_consistent)
  from Cons.prems(1) n(1)
  have f: "executed (step e q) @ queue (step e q) = executed q @ queue q @ enqueued [e]"
    by (rule step_fifo)
  have "executed (run (e # es) q) @ queue (run (e # es) q) =
        executed (step e q) @ queue (step e q) @ enqueued es"
    using Cons.IH [OF c n(2)] by simp
  also have "\<dots> = executed q @ queue q @ enqueued (e # es)"
    using f by (simp add: enqueued_Cons [of e es])
  finally show ?case .
qed

lemma consistent_in_flight: "consistent q \<Longrightarrow> length (in_flight q) \<le> 1"
  by (simp add: consistent_def split: if_splits)

lemma take_normal:
  "list_all normal (enqueued es) \<Longrightarrow> list_all normal (enqueued (take n es))"
proof (induction es arbitrary: n)
  case Nil
  then show ?case by simp
next
  case (Cons e es)
  show ?case
  proof (cases n)
    case 0
    then show ?thesis by simp
  next
    case (Suc m)
    from Cons.prems have "list_all normal (enqueued [e])" "list_all normal (enqueued es)"
      by (simp_all add: enqueued_Cons [of e es])
    with Cons.IH [of m] Suc show ?thesis
      by (simp add: enqueued_Cons [of e "take m es"])
  qed
qed




text \<open>
  C1. Whatever NORMAL commands are submitted through \<open>enqueue\<close>, interleaved in any way
  with completion signals, the commands executed so far followed by those still queued are
  exactly the commands in their order of arrival: execution is first in, first out. After
  every prefix of the events at most one command is in flight.
\<close>

theorem normal_commands_fifo_one_in_flight:
  assumes "list_all normal (enqueued es)"
  shows "executed (run es empty_queue) @ queue (run es empty_queue) = enqueued es \<and>
         (\<forall>n. length (in_flight (run (take n es) empty_queue)) \<le> 1)"
proof
  show "executed (run es empty_queue) @ queue (run es empty_queue) = enqueued es"
    using run_fifo [OF consistent_empty_queue assms] by (simp add: empty_queue_def)
next
  show "\<forall>n. length (in_flight (run (take n es) empty_queue)) \<le> 1"
  proof
    fix n
    from assms have "list_all normal (enqueued (take n es))" by (rule take_normal)
    with consistent_empty_queue have "consistent (run (take n es) empty_queue)"
      by (rule run_consistent)
    then show "length (in_flight (run (take n es) empty_queue)) \<le> 1"
      by (rule consistent_in_flight)
  qed
qed


theorem normal_commands_fifo_one_in_flight_witness:
  "list_all normal (enqueued [Enqueue cmd0, Enqueue cmd1, ActionComplete]) \<and>
   executed (run [Enqueue cmd0, Enqueue cmd1, ActionComplete] empty_queue) = [cmd0, cmd1] \<and>
   queue (run [Enqueue cmd0, Enqueue cmd1, ActionComplete] empty_queue) = [] \<and>
   executed (run [Enqueue cmd0, Enqueue cmd1] empty_queue) = [cmd0] \<and>
   queue (run [Enqueue cmd0, Enqueue cmd1] empty_queue) = [cmd1] \<and>
   length (in_flight (run (take 2 [Enqueue cmd0, Enqueue cmd1, ActionComplete]) empty_queue)) \<le> 1"
  using normal_commands_fifo_one_in_flight [of "[Enqueue cmd0, Enqueue cmd1, ActionComplete]"]
  by (simp add: normal_def cmd0_def cmd1_def empty_queue_def enqueue_def process_next_def
      execute_def on_action_complete_def)





subsection \<open>The presenter screen client\<close>

lemmas client_defs =
  showQuestion_def showResponseText_def hideOverlays_def playPreGenAudio_def playLiveAudio_def
  startStreamingAudio_def pauseAll_def stopAudio_def setAvatarMode_def load_and_play_def
  handleAudioChunk_def assembleAndPlayStream_def sendToBackend_def gotoSlideAndRevealFragments_def
  setTimeout_def clearTimeout_def connect_def

lemma handleMessage_overlay:
  "at_most_one_overlay s \<Longrightarrow> at_most_one_overlay (handleMessage now m s)"
  by (cases m) (auto simp: at_most_one_overlay_def client_defs Let_def split: option.splits)

lemma client_step_overlay:
  "at_most_one_overlay s \<Longrightarrow> at_most_one_overlay (client_step e s)"
proof (cases e)
  case (WsMessage i now m)
  assume "at_most_one_overlay s"
  then show ?thesis using WsMessage by (simp add: handleMessage_overlay)
next
  case (PlayRejected origin)
  assume "at_most_one_overlay s"
  then show ?thesis using PlayRejected
    by (cases origin) (auto simp: at_most_one_overlay_def client_defs Let_def)
qed (auto simp: at_most_one_overlay_def client_defs split: option.splits callback.splits)

lemma client_run_overlay:
  "at_most_one_overlay s \<Longrightarrow> at_most_one_overlay (client_run es s)"
  by (induction es arbitrary: s) (simp_all add: client_step_overlay)

lemma initial_overlay: "at_most_one_overlay initial_client"
  by (simp add: initial_client_def fresh_page_def connect_def at_most_one_overlay_def ws_open_def)

lemma handleMessage_types:
  "only_backend_types s \<Longrightarrow> only_backend_types (handleMessage now m s)"
  by (cases m) (auto simp: only_backend_types_def backend_types_def client_defs Let_def split: option.splits)

lemma client_step_types:
  "only_backend_types s \<Longrightarrow> only_backend_types (client_step e s)"
proof (cases e)
  case (WsMessage i now m)
  assume "only_backend_types s"
  then show ?thesis using WsMessage by (simp add: handleMessage_types)
next
  case (PlayRejected origin)
  assume "only_backend_types s"
  then show ?thesis using PlayRejected
    by (cases origin) (auto simp: only_backend_types_def backend_types_def client_defs Let_def)
qed (auto simp: only_backend_types_def backend_types_def client_defs split: option.splits callback.splits)

lemma client_run_types:
  "only_backend_types s \<Longrightarrow> only_backend_types (client_run es s)"
  by (induction es arbitrary: s) (simp_all add: client_step_types)

lemma initial_types: "only_backend_types initial_client"
  by (simp add: initial_client_def fresh_page_def connect_def only_backend_types_def ws_open_def)

text \<open>
  C3. One command must give one completion signal, also when playback fails. When the
  file of a \<^verbatim>\<open>play_audio\<close> message is missing, the browser fires the audio element's
  \<^verbatim>\<open>error\<close> event and rejects the promise of \<^verbatim>\<open>play()\<close>; the listener and the
  \<^verbatim>\<open>catch\<close> handler each send \<^verbatim>\<open>audio_ended\<close>, so the backend receives two completion
  signals for the one command.
\<close>

theorem missing_audio_file_signals_twice:
  "sent (client_run
           [WsOpen 0, WsMessage 0 1000 (PlayAudio (Some ''/audio/slide_03.mp3'') True),
            AudioError, PlayRejected PreGen]
           initial_client) =
   [(''audio_ended'', [(''error'', JStr ''load_error'')]),
    (''audio_ended'', [(''error'', JStr ''play_failed'')])]"
  by (simp add: initial_client_def fresh_page_def connect_def ws_open_def ready_of_def
      clearTimeout_def playPreGenAudio_def hideOverlays_def load_and_play_def sendToBackend_def)

text \<open>
  C8, as stated: after a disconnect the client reconnects and then asks for a status
  snapshot. After a disconnect and a reconnect the client is connected again and has sent
  nothing.
\<close>

theorem reconnect_sends_nothing_counterexample:
  "ws_open (client_run [WsOpen 0, WsClose 0, TimerFire 0, WsOpen 1] initial_client) \<and>
   sent (client_run [WsOpen 0, WsClose 0, TimerFire 0, WsOpen 1] initial_client) = []"
  by (simp add: initial_client_def fresh_page_def connect_def ws_open_def ready_of_def
      clearTimeout_def setTimeout_def)

text \<open>
  C8, amended. When a socket closes the client schedules \<open>connect\<close>; when that timer fires
  and no socket is open, a new socket is created and becomes the current one; when a socket
  opens nothing is sent. In no run of the client is a message of type \<^verbatim>\<open>status\<close> ever sent
  to the backend.
\<close>

theorem reconnect_without_status_request:
  "(ready_of s i \<noteq> None \<and> ready_of s i \<noteq> Some CLOSED \<longrightarrow>
      ready_of (client_step (WsClose i) s) i = Some CLOSED \<and>
      reconnectTimer (client_step (WsClose i) s) = Some (next_timer s) \<and>
      (next_timer s, CbConnect) \<in> set (timers (client_step (WsClose i) s))) \<and>
   (map_of (timers s) t = Some CbConnect \<and> \<not> ws_open s \<longrightarrow>
      ws (client_step (TimerFire t) s) = Some (length (socks s)) \<and>
      ready_of (client_step (TimerFire t) s) (length (socks s)) = Some CONNECTING) \<and>
   sent (client_step (WsOpen i) s) = sent s \<and>
   list_all (\<lambda>m. fst m \<noteq> ''status'') (sent (client_run es initial_client))"
proof -
  have a: "ready_of s i \<noteq> None \<and> ready_of s i \<noteq> Some CLOSED \<longrightarrow>
      ready_of (client_step (WsClose i) s) i = Some CLOSED \<and>
      reconnectTimer (client_step (WsClose i) s) = Some (next_timer s) \<and>
      (next_timer s, CbConnect) \<in> set (timers (client_step (WsClose i) s))"
    by (auto simp: setTimeout_def ready_of_def split: if_splits)
  have b: "map_of (timers s) t = Some CbConnect \<and> \<not> ws_open s \<longrightarrow>
      ws (client_step (TimerFire t) s) = Some (length (socks s)) \<and>
      ready_of (client_step (TimerFire t) s) (length (socks s)) = Some CONNECTING"
    by (auto simp: connect_def ws_open_def ready_of_def split: option.splits)
  have c: "sent (client_step (WsOpen i) s) = sent s"
    by (simp add: clearTimeout_def split: option.splits)
  have "only_backend_types (client_run es initial_client)"
    using initial_types by (rule client_run_types)
  then have d: "list_all (\<lambda>m. fst m \<noteq> ''status'') (sent (client_run es initial_client))"
    by (auto simp: only_backend_types_def backend_types_def list_all_iff)
  from a b c d show ?thesis by blast
qed

theorem reconnect_without_status_request_witness:
  "ready_of (client_run [WsOpen 0] initial_client) 0 = Some OPEN \<and>
   ready_of (client_run [WsOpen 0, WsClose 0] initial_client) 0 = Some CLOSED \<and>
   reconnectTimer (client_run [WsOpen 0, WsClose 0] initial_client) = Some 0 \<and>
   timers (client_run [WsOpen 0, WsClose 0] initial_client) = [(0, CbConnect)] \<and>
   \<not> ws_open (client_run [WsOpen 0, WsClose 0] initial_client) \<and>
   ws (client_run [WsOpen 0, WsClose 0, TimerFire 0] initial_client) = Some 1 \<and>
   ready_of (client_run [WsOpen 0, WsClose 0, TimerFire 0] initial_client) 1 = Some CONNECTING \<and>
   sent (client_run [WsOpen 0, WsClose 0, TimerFire 0, WsOpen 1, Heartbeat] initial_client) = [(''ping'', [])] \<and>
   list_all (\<lambda>m. fst m \<noteq> ''status'')
     (sent (client_run [WsOpen 0, WsClose 0, TimerFire 0, WsOpen 1, Heartbeat] initial_client))"
  using reconnect_without_status_request
    [of "client_run [WsOpen 0] initial_client" 0 0
        "[WsOpen 0, WsClose 0, TimerFire 0, WsOpen 1, Heartbeat]"]
    reconnect_without_status_request
    [of "client_run [WsOpen 0, WsClose 0] initial_client" 0 0 "[]"]
  by (simp add: initial_client_def fresh_page_def connect_def ws_open_def ready_of_def
      clearTimeout_def setTimeout_def sendToBackend_def)

text \<open>
  C9. At most one of the question overlay and the response overlay is visible: each
  operation that touches the overlays, and each audio path that hides them first, leaves
  at most one visible whatever the state before; every handler keeps the property; it
  holds in every state the client reaches.
\<close>

theorem overlays_mutually_exclusive:
  "at_most_one_overlay (showQuestion targetName question s) \<and>
   at_most_one_overlay (showResponseText text s) \<and>
   at_most_one_overlay (hideOverlays s) \<and>
   at_most_one_overlay (playPreGenAudio now audioUrl fallback s) \<and>
   at_most_one_overlay (playLiveAudio audioData text s) \<and>
   at_most_one_overlay (startStreamingAudio text s) \<and>
   at_most_one_overlay (pauseAll s) \<and>
   at_most_one_overlay (client_step AudioEnded s) \<and>
   (at_most_one_overlay s \<longrightarrow> at_most_one_overlay (client_step e s)) \<and>
   at_most_one_overlay (client_run es initial_client)"
proof -
  have ops: "at_most_one_overlay (showQuestion targetName question s)"
    "at_most_one_overlay (showResponseText text s)"
    "at_most_one_overlay (hideOverlays s)"
    "at_most_one_overlay (playPreGenAudio now audioUrl fallback s)"
    "at_most_one_overlay (playLiveAudio audioData text s)"
    "at_most_one_overlay (startStreamingAudio text s)"
    "at_most_one_overlay (pauseAll s)"
    "at_most_one_overlay (client_step AudioEnded s)"
    by (auto simp: at_most_one_overlay_def client_defs Let_def split: option.splits)
  have pres: "at_most_one_overlay s \<longrightarrow> at_most_one_overlay (client_step e s)"
    by (simp add: client_step_overlay)
  have reach: "at_most_one_overlay (client_run es initial_client)"
    using initial_overlay by (rule client_run_overlay)
  from ops pres reach show ?thesis by blast
qed

theorem overlays_mutually_exclusive_witness:
  "at_most_one_overlay (client_run [WsOpen 0, WsMessage 0 7 (ShowResponseText ''Thanks.'')] initial_client) \<and>
   \<not> response_hidden (client_run [WsOpen 0, WsMessage 0 7 (ShowResponseText ''Thanks.'')] initial_client) \<and>
   at_most_one_overlay
     (client_step (WsMessage 0 8 (ShowQuestion ''Maria'' ''Which tools?''))
        (client_run [WsOpen 0, WsMessage 0 7 (ShowResponseText ''Thanks.'')] initial_client)) \<and>
   \<not> question_hidden
     (client_step (WsMessage 0 8 (ShowQuestion ''Maria'' ''Which tools?''))
        (client_run [WsOpen 0, WsMessage 0 7 (ShowResponseText ''Thanks.'')] initial_client))"
  using overlays_mutually_exclusive
    [of "''Maria''" "''Which tools?''"
        "client_run [WsOpen 0, WsMessage 0 7 (ShowResponseText ''Thanks.'')] initial_client"
        "''Thanks.''" 8 "None" False "None"
        "WsMessage 0 8 (ShowQuestion ''Maria'' ''Which tools?'')"
        "[WsOpen 0, WsMessage 0 7 (ShowResponseText ''Thanks.'')]"]
  by (simp add: initial_client_def fresh_page_def connect_def ws_open_def ready_of_def
      clearTimeout_def showResponseText_def showQuestion_def at_most_one_overlay_def)

subsection \<open>The audience question form\<close>

lemma requests_on_settled: "requests (on_settled outcome f) = requests f"
  by (cases outcome) (simp_all add: on_catch_def showError_def)

text \<open>
  C10. A submission whose question is empty once trimmed issues no request: it shows the
  error "Please enter a question." and changes nothing else of the form. A submission
  with a question issues exactly one request, a POST to \<^verbatim>\<open>/api/questions/submit\<close> with the
  trimmed question, and with \<^verbatim>\<open>null\<close> for a name that is blank once trimmed; however the
  request ends, no further request follows.
\<close>

theorem empty_question_no_request_else_one_post:
  "(trim (questionInput f) = [] \<longrightarrow>
      submission outcome f = f\<lparr>error_text := js ''Please enter a question.'', error_display := ''block''\<rparr> \<and>
      requests (submission outcome f) = requests f) \<and>
   (trim (questionInput f) \<noteq> [] \<longrightarrow>
      requests (submission outcome f) =
        requests f @
          [\<lparr>req_url = ''/api/questions/submit'', req_method = ''POST'',
            req_headers = [(''Content-Type'', ''application/json'')],
            req_body = \<lparr>body_name = (if trim (nameInput f) = [] then None else Some (trim (nameInput f))),
                         body_question = trim (questionInput f)\<rparr>\<rparr>])"
  by (simp add: submission_def on_submit_def showError_def hideError_def requests_on_settled Let_def)

theorem empty_question_no_request_else_one_post_witness:
  "trim (questionInput (blank_form\<lparr>questionInput := js ''   ''\<rparr>)) = [] \<and>
   submission ResponseOk (blank_form\<lparr>questionInput := js ''   ''\<rparr>) =
     blank_form\<lparr>questionInput := js ''   '', error_text := js ''Please enter a question.'',
       error_display := ''block''\<rparr> \<and>
   requests (submission ResponseOk (blank_form\<lparr>questionInput := js ''   ''\<rparr>)) = [] \<and>
   trim (questionInput (blank_form\<lparr>nameInput := js ''  '', questionInput := js '' Hi? ''\<rparr>)) \<noteq> [] \<and>
   requests (submission ResponseOk (blank_form\<lparr>nameInput := js ''  '', questionInput := js '' Hi? ''\<rparr>)) =
     [\<lparr>req_url = ''/api/questions/submit'', req_method = ''POST'',
       req_headers = [(''Content-Type'', ''application/json'')],
       req_body = \<lparr>body_name = None, body_question = js ''Hi?''\<rparr>\<rparr>]"
  using empty_question_no_request_else_one_post [of "blank_form\<lparr>questionInput := js ''   ''\<rparr>" ResponseOk]
    empty_question_no_request_else_one_post
      [of "blank_form\<lparr>nameInput := js ''  '', questionInput := js '' Hi? ''\<rparr>" ResponseOk]
  by (simp add: blank_form_def js_def trim_def is_white_def)

subsection \<open>The presentation engine\<close>

lemma completes_awaiting:
  assumes "agentState e = PRESENTING \<or> agentState e = RESPONDING \<or> agentState e = QA_MODE"
    and "queue (commands e) = []"
  shows "awaiting e (state_completes e)"
  using assms
  by (auto simp: awaiting_def state_completes_def router_def on_action_complete_def
      process_next_def Let_def)

lemma awaiting_step: "awaiting e e' \<Longrightarrow> awaiting e (state_completes e')"
  by (auto simp: awaiting_def state_completes_def router_def on_action_complete_def
      process_next_def Let_def)

lemma completes_funpow_awaiting:
  assumes "agentState e = PRESENTING \<or> agentState e = RESPONDING \<or> agentState e = QA_MODE"
    and "queue (commands e) = []"
  shows "awaiting e ((state_completes ^^ Suc n) e)"
proof (induction n)
  case 0
  from assms show ?case by (simp add: completes_awaiting)
next
  case (Suc n)
  then have "awaiting e (state_completes ((state_completes ^^ Suc n) e))"
    by (rule awaiting_step)
  then show ?case by simp
qed

text \<open>
  C4. When PRESENTING, RESPONDING or QA_MODE completes and the FIFO is empty, the engine is
  in PRESENTING afterwards, on the same slide, with no effect emitted and no command
  executed, and the queue is idle; it stays so however many further completion signals
  arrive. In the code, \<open>on_action_complete\<close> on an empty queue only resets the busy flag,
  and the screen's handler of the end of the audio asks Reveal for no navigation.
\<close>

theorem empty_fifo_stays_presenting:
  "((agentState e = PRESENTING \<or> agentState e = RESPONDING \<or> agentState e = QA_MODE) \<and>
    queue (commands e) = [] \<longrightarrow>
      awaiting e (state_completes e) \<and> awaiting e ((state_completes ^^ Suc n) e)) \<and>
   (queue q = [] \<longrightarrow> on_action_complete q = q\<lparr>is_busy := False\<rparr>) \<and>
   reveal_calls (client_step AudioEnded s) = reveal_calls s"
proof -
  have a: "(agentState e = PRESENTING \<or> agentState e = RESPONDING \<or> agentState e = QA_MODE) \<and>
    queue (commands e) = [] \<longrightarrow>
      awaiting e (state_completes e) \<and> awaiting e ((state_completes ^^ Suc n) e)"
    using completes_awaiting [of e] completes_funpow_awaiting [of e n] by blast
  have b: "queue q = [] \<longrightarrow> on_action_complete q = q\<lparr>is_busy := False\<rparr>"
    by (simp add: on_action_complete_def process_next_def)
  have c: "reveal_calls (client_step AudioEnded s) = reveal_calls s"
    by (simp add: sendToBackend_def hideOverlays_def setAvatarMode_def)
  from a b c show ?thesis by blast
qed

theorem empty_fifo_stays_presenting_witness:
  "agentState (session\<lparr>commands := run [Enqueue cmd1] empty_queue\<rparr>) = RESPONDING \<and>
   queue (commands (session\<lparr>commands := run [Enqueue cmd1] empty_queue\<rparr>)) = [] \<and>
   is_busy (commands (session\<lparr>commands := run [Enqueue cmd1] empty_queue\<rparr>)) \<and>
   agentState (state_completes (session\<lparr>commands := run [Enqueue cmd1] empty_queue\<rparr>)) = PRESENTING \<and>
   currentSlide (state_completes (session\<lparr>commands := run [Enqueue cmd1] empty_queue\<rparr>)) = 3 \<and>
   effects (state_completes (session\<lparr>commands := run [Enqueue cmd1] empty_queue\<rparr>)) = [] \<and>
   executed (commands (state_completes (session\<lparr>commands := run [Enqueue cmd1] empty_queue\<rparr>))) = [cmd1] \<and>
   currentSlide ((state_completes ^^ Suc 2) (session\<lparr>commands := run [Enqueue cmd1] empty_queue\<rparr>)) = 3"
  using empty_fifo_stays_presenting
    [of "session\<lparr>commands := run [Enqueue cmd1] empty_queue\<rparr>" 2 empty_queue initial_client]
  by (simp add: awaiting_def session_def cmd1_def empty_queue_def enqueue_def process_next_def execute_def)

text \<open>
  C5. \<open>goto N\<close> with \<open>0 \<le> N < totalSlides\<close> raises nothing and sets the current slide to
  \<open>N\<close>; with any other \<open>N\<close> it raises \<open>InvalidSlideIndex\<close> and leaves the engine, so the
  current slide and the agent state, as it was. In the code, the screen's handler of
  \<^verbatim>\<open>goto_slide\<close> with index \<open>N\<close> calls \<^verbatim>\<open>Reveal.slide(N, 0, 0)\<close>.
\<close>

theorem goto_in_range_or_invalid:
  "(0 \<le> N \<and> N < totalSlides e \<longrightarrow>
      fst (goto N e) = None \<and> currentSlide (snd (goto N e)) = N) \<and>
   (\<not> (0 \<le> N \<and> N < totalSlides e) \<longrightarrow>
      fst (goto N e) = Some InvalidSlideIndex \<and> snd (goto N e) = e \<and>
      currentSlide (snd (goto N e)) = currentSlide e \<and>
      agentState (snd (goto N e)) = agentState e) \<and>
   reveal_calls (handleMessage now (GotoSlide (Some N)) s) = reveal_calls s @ [RevealSlide N 0 0]"
  by (simp add: goto_def gotoSlideAndRevealFragments_def setTimeout_def)

theorem goto_in_range_or_invalid_witness:
  "(0::int) \<le> 7 \<and> 7 < totalSlides session \<and>
   fst (goto 7 session) = None \<and> currentSlide (snd (goto 7 session)) = 7 \<and>
   \<not> (0 \<le> (20::int) \<and> 20 < totalSlides session) \<and>
   fst (goto 20 session) = Some InvalidSlideIndex \<and> currentSlide (snd (goto 20 session)) = 3 \<and>
   agentState (snd (goto 20 session)) = RESPONDING \<and>
   \<not> (0 \<le> (-1::int) \<and> -1 < totalSlides session) \<and>
   fst (goto (-1) session) = Some InvalidSlideIndex \<and>
   reveal_calls (handleMessage 0 (GotoSlide (Some 0)) initial_client) = [RevealSlide 0 0 0]"
  using goto_in_range_or_invalid [of 7 session 0 initial_client]
    goto_in_range_or_invalid [of 20 session 0 initial_client]
    goto_in_range_or_invalid [of "-1" session 0 initial_client]
    goto_in_range_or_invalid [of 0 session 0 initial_client]
  by (simp add: session_def initial_client_def fresh_page_def connect_def ws_open_def)

text \<open>
  C6. A \<^verbatim>\<open>pause\<close> interrupt received while a command is current puts the engine in PAUSED,
  saves the agent state and slide it had, and leaves the FIFO as it was; \<open>resume\<close> then
  restores that agent state and slide. A \<^verbatim>\<open>stop\<close> interrupt empties the FIFO. In the code,
  the screen's handler of \<^verbatim>\<open>pause\<close> pauses the audio and hides both overlays.
\<close>

theorem pause_saves_state_resume_restores:
  "(ctype p = ''pause'' \<and> priority p = 1 \<and> current_action (commands e) = Some c \<longrightarrow>
      agentState (interrupt_engine p e) = PAUSED \<and>
      savedStateOnPause (interrupt_engine p e) =
        Some \<lparr>snap_state = agentState e, snap_slide = currentSlide e\<rparr> \<and>
      queue (commands (interrupt_engine p e)) = queue (commands e) \<and>
      agentState (resume (interrupt_engine p e)) = agentState e \<and>
      currentSlide (resume (interrupt_engine p e)) = currentSlide e) \<and>
   (ctype p = ''stop'' \<and> priority p = 1 \<longrightarrow> queue (commands (interrupt_engine p e)) = []) \<and>
   audio_paused (handleMessage now Pause s) \<and>
   question_hidden (handleMessage now Pause s) \<and>
   response_hidden (handleMessage now Pause s)"
  by (simp add: interrupt_engine_def resume_def enqueue_def interrupt_def pauseAll_def
      hideOverlays_def setAvatarMode_def)

theorem pause_saves_state_resume_restores_witness:
  "ctype pause_cmd = ''pause'' \<and> priority pause_cmd = 1 \<and>
   current_action (commands session) = Some cmd1 \<and>
   queue (commands session) = [cmd0] \<and>
   agentState (interrupt_engine pause_cmd session) = PAUSED \<and>
   savedStateOnPause (interrupt_engine pause_cmd session) =
     Some \<lparr>snap_state = RESPONDING, snap_slide = 3\<rparr> \<and>
   queue (commands (interrupt_engine pause_cmd session)) = [cmd0] \<and>
   agentState (resume (interrupt_engine pause_cmd session)) = RESPONDING \<and>
   ctype stop_cmd = ''stop'' \<and> priority stop_cmd = 1 \<and>
   queue (commands (interrupt_engine stop_cmd session)) = []"
  using pause_saves_state_resume_restores [of pause_cmd session cmd1 0 initial_client]
    pause_saves_state_resume_restores [of stop_cmd session cmd1 0 initial_client]
  by (simp add: session_def pause_cmd_def stop_cmd_def cmd0_def cmd1_def empty_queue_def
      enqueue_def process_next_def execute_def)

lemma status_funpow: "((\<lambda>x. snd (status x)) ^^ n) e = e"
  by (induction n) (simp_all add: status_def)

lemma status_message_funpow: "(client_step (WsMessage i now (Status d)) ^^ n) s = s"
  by (induction n) simp_all

text \<open>
  C7. \<open>status\<close> returns its report and leaves the engine as it is, however often it is
  issued: current slide, agent state and the command queue are unchanged. In the code, the
  screen's handler of a \<^verbatim>\<open>status\<close> message leaves the whole state of the screen unchanged,
  however often such a message arrives.
\<close>

theorem status_changes_nothing:
  "snd (status e) = e \<and>
   ((\<lambda>x. snd (status x)) ^^ n) e = e \<and>
   currentSlide (((\<lambda>x. snd (status x)) ^^ n) e) = currentSlide e \<and>
   agentState (((\<lambda>x. snd (status x)) ^^ n) e) = agentState e \<and>
   commands (((\<lambda>x. snd (status x)) ^^ n) e) = commands e \<and>
   handleMessage now (Status d) s = s \<and>
   (client_step (WsMessage i now (Status d)) ^^ n) s = s"
  by (simp add: status_funpow status_message_funpow) (simp add: status_def)

theorem status_changes_nothing_witness:
  "fst (status session) =
     \<lparr>report_agentState = RESPONDING, report_currentSlide = 3, report_queueDepth = 1,
      report_currentCommandKind = Some ''ask''\<rparr> \<and>
   ((\<lambda>x. snd (status x)) ^^ 3) session = session \<and>
   (client_step (WsMessage 0 9 (Status [(''state'', JStr ''presenting'')])) ^^ 2)
     (client_run [WsOpen 0] initial_client) = client_run [WsOpen 0] initial_client"
  using status_changes_nothing
    [of session 3 9 "[(''state'', JStr ''presenting'')]" "client_run [WsOpen 0] initial_client" 0]
    status_changes_nothing
    [of session 2 9 "[(''state'', JStr ''presenting'')]" "client_run [WsOpen 0] initial_client" 0]
  by (simp add: status_def session_def cmd0_def cmd1_def empty_queue_def
      enqueue_def process_next_def execute_def)

end
